theory Spec2Isabelle
  imports Main "HOL-Library.Sublist"
begin

section \<open>Python values, exceptions and dictionaries\<close>

text \<open>
  The values that \<^verbatim>\<open>response.json()\<close> yields and that the handler passes around.
  A dictionary is the list of its items in insertion order (keys distinct). A JSON number
  is carried as an integer: no function below computes with numbers, they only meet
  the type tests of subscripting, iteration and hashing.
\<close>

datatype json =
    JNull
  | JBool bool
  | JNum int
  | JStr string
  | JArr "json list"
  | JObj "(string \<times> json) list"

text \<open>
  Exceptions are values: the class the \<^verbatim>\<open>except\<close> clauses test, and \<^verbatim>\<open>str(e)\<close>.
  \<open>Exception\<close> stands for every class that is neither of the others
  (plain \<^verbatim>\<open>Exception\<close>, \<^verbatim>\<open>requests.Timeout\<close>, ...). Conditions outside
  \<^verbatim>\<open>Exception\<close> (\<^verbatim>\<open>KeyboardInterrupt\<close>, \<^verbatim>\<open>SystemExit\<close>) are not modelled.
\<close>

datatype exc_class =
  KeyError | ValueError | ConnectionError | HTTPError | TypeError | UnboundLocalError | Exception

datatype exc = Exc exc_class string

fun exc_class_of :: "exc \<Rightarrow> exc_class" where
  "exc_class_of (Exc c msg) = c"

fun str_exc :: "exc \<Rightarrow> string" where
  "str_exc (Exc c msg) = msg"

datatype 'a outcome = Raise exc | Return 'a

definition quoted :: "string \<Rightarrow> string" where
  "quoted s = CHR 0x27 # s @ [CHR 0x27]"

text \<open>\<^verbatim>\<open>d[k] = v\<close>: an existing key keeps its place, a new key goes last.\<close>

fun dict_setitem :: "('k \<times> 'v) list \<Rightarrow> 'k \<Rightarrow> 'v \<Rightarrow> ('k \<times> 'v) list" where
  "dict_setitem [] k v = [(k, v)]"
| "dict_setitem ((k', v') # d) k v =
     (if k' = k then (k', v) # d else (k', v') # dict_setitem d k v)"

text \<open>\<^verbatim>\<open>{k: v for k, v in pairs}\<close>: the pairs are stored one after the other.\<close>

definition dict_of_pairs :: "('k \<times> 'v) list \<Rightarrow> ('k \<times> 'v) list" where
  "dict_of_pairs pairs = foldl (\<lambda>d (k, v). dict_setitem d k v) [] pairs"

text \<open>\<^verbatim>\<open>d.get(k, default)\<close>\<close>

definition dict_get :: "('k \<times> 'v) list \<Rightarrow> 'k \<Rightarrow> 'v \<Rightarrow> 'v" where
  "dict_get d k dflt = (case map_of d k of Some v \<Rightarrow> v | None \<Rightarrow> dflt)"

text \<open>
  \<^verbatim>\<open>v[k]\<close> for a string key \<open>k\<close>: a dictionary looks the key up (\<^verbatim>\<open>KeyError\<close> when
  it is missing), every other value raises \<^verbatim>\<open>TypeError\<close> (texts of CPython 3.8 to 3.10).
\<close>

fun py_getitem :: "json \<Rightarrow> string \<Rightarrow> exc + json" where
  "py_getitem (JObj d) k =
     (case map_of d k of Some v \<Rightarrow> Inr v | None \<Rightarrow> Inl (Exc KeyError (quoted k)))"
| "py_getitem (JArr xs) k =
     Inl (Exc TypeError ''list indices must be integers or slices, not str'')"
| "py_getitem (JStr s) k = Inl (Exc TypeError ''string indices must be integers'')"
| "py_getitem JNull k =
     Inl (Exc TypeError (quoted ''NoneType'' @ '' object is not subscriptable''))"
| "py_getitem (JBool b) k =
     Inl (Exc TypeError (quoted ''bool'' @ '' object is not subscriptable''))"
| "py_getitem (JNum n) k =
     Inl (Exc TypeError (quoted ''int'' @ '' object is not subscriptable''))"

text \<open>\<^verbatim>\<open>for x in v\<close>: the items a value yields, or \<^verbatim>\<open>TypeError\<close>.\<close>

fun py_iter :: "json \<Rightarrow> exc + json list" where
  "py_iter (JArr xs) = Inr xs"
| "py_iter (JObj d) = Inr (map (\<lambda>(k, v). JStr k) d)"
| "py_iter (JStr s) = Inr (map (\<lambda>c. JStr [c]) s)"
| "py_iter JNull = Inl (Exc TypeError (quoted ''NoneType'' @ '' object is not iterable''))"
| "py_iter (JBool b) = Inl (Exc TypeError (quoted ''bool'' @ '' object is not iterable''))"
| "py_iter (JNum n) = Inl (Exc TypeError (quoted ''int'' @ '' object is not iterable''))"

text \<open>
  \<^verbatim>\<open>set(xs)\<close> needs hashable items: the first list or dictionary among them raises
  \<^verbatim>\<open>TypeError\<close>.
\<close>

fun unhashable :: "json list \<Rightarrow> exc option" where
  "unhashable [] = None"
| "unhashable (JArr xs # rest) = Some (Exc TypeError (''unhashable type: '' @ quoted ''list''))"
| "unhashable (JObj d # rest) = Some (Exc TypeError (''unhashable type: '' @ quoted ''dict''))"
| "unhashable (x # rest) = unhashable rest"

fun str_items :: "json list \<Rightarrow> string list" where
  "str_items [] = []"
| "str_items (JStr s # rest) = s # str_items rest"
| "str_items (x # rest) = str_items rest"

text \<open>
  \<^verbatim>\<open>set(xs) & set(codes)\<close> for a list \<open>codes\<close> of strings: the strings of \<open>xs\<close> that
  are among \<open>codes\<close>, each once (a value that is not a string equals no string).
  Python leaves the order in which a set is iterated open: \<open>set_iter order\<close> iterates
  in the order \<open>order\<close> gives when that is a rearrangement of the members, so every
  iteration order is that of some \<open>order\<close>.
\<close>

definition set_and :: "json list \<Rightarrow> string list \<Rightarrow> exc + string list" where
  "set_and xs codes =
     (case unhashable xs of
        Some e \<Rightarrow> Inl e
      | None \<Rightarrow> Inr (remdups (filter (\<lambda>s. s \<in> set codes) (str_items xs))))"

definition set_iter :: "(string list \<Rightarrow> string list) \<Rightarrow> string list \<Rightarrow> string list" where
  "set_iter order members =
     (if distinct (order members) \<and> set (order members) = set members
      then order members else members)"

text \<open>Truth value of a Python value (\<^verbatim>\<open>if v:\<close>) and of an optional string.\<close>

fun py_truthy :: "json \<Rightarrow> bool" where
  "py_truthy JNull = False"
| "py_truthy (JBool b) = b"
| "py_truthy (JNum n) = (n \<noteq> 0)"
| "py_truthy (JStr s) = (s \<noteq> [])"
| "py_truthy (JArr xs) = (xs \<noteq> [])"
| "py_truthy (JObj d) = (d \<noteq> [])"

fun str_truthy :: "string option \<Rightarrow> bool" where
  "str_truthy None = False"
| "str_truthy (Some s) = (s \<noteq> [])"

text \<open>\<^verbatim>\<open>str(n)\<close> for a natural number: its decimal digits.\<close>

fun str_nat :: "nat \<Rightarrow> string" where
  "str_nat n =
     (if n < 10 then [char_of (48 + n)] else str_nat (n div 10) @ [char_of (48 + n mod 10)])"

declare str_nat.simps [simp del]

section \<open>The HTTP layer (the \<^verbatim>\<open>requests\<close> library)\<close>

datatype http_method = GET | POST

record request =
  req_method :: http_method
  req_url :: string
  req_authorization :: string
  req_json :: "json option"

text \<open>
  A response: its status line, the URL it records, and what \<^verbatim>\<open>response.json()\<close>
  does with its body (\<open>Inl msg\<close>: it raises a \<^verbatim>\<open>ValueError\<close> with that text).
\<close>

record response =
  status_code :: nat
  reason :: string
  url :: string
  decoded :: "string + json"

datatype net_result = Responds response | Fails exc

type_synonym network = "request \<Rightarrow> net_result"

text \<open>
  \<^verbatim>\<open>Response.raise_for_status\<close> and \<^verbatim>\<open>Response.ok\<close> as the library defines them:
  an error is raised for the statuses 400 to 599, and \<open>ok\<close> says that none is raised.
\<close>

definition raise_for_status :: "response \<Rightarrow> exc option" where
  "raise_for_status r =
     (if 400 \<le> status_code r \<and> status_code r < 500 then
        Some (Exc HTTPError
          (str_nat (status_code r) @ '' Client Error: '' @ reason r @ '' for url: '' @ url r))
      else if 500 \<le> status_code r \<and> status_code r < 600 then
        Some (Exc HTTPError
          (str_nat (status_code r) @ '' Server Error: '' @ reason r @ '' for url: '' @ url r))
      else None)"

definition ok :: "response \<Rightarrow> bool" where
  "ok r = (raise_for_status r = None)"

text \<open>What a call has done so far: the messages given to \<^verbatim>\<open>logger.error\<close> and the
  requests handed to \<^verbatim>\<open>requests.get\<close> and \<^verbatim>\<open>requests.post\<close>, both in order.\<close>

record world =
  logged :: "string list"
  requested :: "request list"

definition log_error :: "string \<Rightarrow> world \<Rightarrow> world" where
  "log_error msg w = w\<lparr>logged := logged w @ [msg]\<rparr>"

definition send :: "request \<Rightarrow> world \<Rightarrow> world" where
  "send rq w = w\<lparr>requested := requested w @ [rq]\<rparr>"

section \<open>The handler\<close>

definition TRANSIFEX_CDS_HOST :: string where
  "TRANSIFEX_CDS_HOST = ''https://cds.svc.transifex.net''"

definition FETCH_AVAILABLE_LANGUAGES :: string where
  "FETCH_AVAILABLE_LANGUAGES = ''/languages''"

text \<open>\<^verbatim>\<open>'/content/{language_code}'.format(language_code=code)\<close>\<close>

definition FETCH_TRANSLATIONS_FOR_LANGUAGE :: "string \<Rightarrow> string" where
  "FETCH_TRANSLATIONS_FOR_LANGUAGE code = ''/content/'' @ code"

definition PUSH_SOURCE_STRINGS :: string where
  "PUSH_SOURCE_STRINGS = ''/content/''"

record cds_handler =
  configured_language_codes :: "string list"
  token :: string
  secret :: "string option"
  host :: string

definition CDSHandler ::
  "string list \<Rightarrow> string \<Rightarrow> string option \<Rightarrow> string option \<Rightarrow> cds_handler" where
  "CDSHandler configured_languages tok sec hst =
     \<lparr>configured_language_codes = configured_languages, token = tok, secret = sec,
      host = (case hst of None \<Rightarrow> TRANSIFEX_CDS_HOST
              | Some h \<Rightarrow> if h = [] then TRANSIFEX_CDS_HOST else h)\<rparr>"

subsection \<open>fetch_languages\<close>

definition languages_request :: "cds_handler \<Rightarrow> request" where
  "languages_request self =
     \<lparr>req_method = GET, req_url = host self @ FETCH_AVAILABLE_LANGUAGES,
      req_authorization = ''Bearer '' @ token self, req_json = None\<rparr>"

text \<open>\<^verbatim>\<open>response.json()\<close>\<close>

definition response_json :: "response \<Rightarrow> exc + json" where
  "response_json r = (case decoded r of Inl msg \<Rightarrow> Inl (Exc ValueError msg) | Inr j \<Rightarrow> Inr j)"

text \<open>The body of the \<^verbatim>\<open>try\<close> block: the language list, or the exception raised.\<close>

definition fetch_languages_try :: "cds_handler \<Rightarrow> network \<Rightarrow> world \<Rightarrow> (exc + json) \<times> world" where
  "fetch_languages_try self net w =
     (let w1 = send (languages_request self) w in
      case net (languages_request self) of
        Fails e \<Rightarrow> (Inl e, w1)
      | Responds r \<Rightarrow>
          (let w2 = (if \<not> ok r
                     then log_error (''Error retrieving languages from CDS: `'' @ reason r @ ''`'') w1
                     else w1)
           in case (if \<not> ok r then raise_for_status r else None) of
                Some e \<Rightarrow> (Inl e, w2)
              | None \<Rightarrow>
                  (case response_json r of
                     Inl e \<Rightarrow> (Inl e, w2)
                   | Inr json_content \<Rightarrow> (py_getitem json_content ''data'', w2))))"

text \<open>The three \<^verbatim>\<open>except\<close> clauses, in their order: the message each one logs.\<close>

definition languages_except :: "exc \<Rightarrow> string" where
  "languages_except e =
     (if exc_class_of e = KeyError \<or> exc_class_of e = ValueError then
        ''Error retrieving languages from CDS: Malformed response''
      else if exc_class_of e = ConnectionError then
        ''Error retrieving languages from CDS: ConnectionError''
      else ''Error retrieving languages from CDS: UnknownError (`'' @ str_exc e @ ''`)'')"

definition fetch_languages :: "cds_handler \<Rightarrow> network \<Rightarrow> world \<Rightarrow> json outcome \<times> world" where
  "fetch_languages self net w =
     (case fetch_languages_try self net w of
        (Inr languages, w') \<Rightarrow> (Return languages, w')
      | (Inl e, w') \<Rightarrow> (Return (JArr []), log_error (languages_except e) w'))"

subsection \<open>fetch_translations\<close>

definition translations_request :: "cds_handler \<Rightarrow> string \<Rightarrow> request" where
  "translations_request self language_code =
     \<lparr>req_method = GET, req_url = host self @ FETCH_TRANSLATIONS_FOR_LANGUAGE language_code,
      req_authorization = ''Bearer '' @ token self, req_json = None\<rparr>"

text \<open>\<^verbatim>\<open>[lang['code'] for lang in langs]\<close>: stops at the first item that raises.\<close>

fun lang_codes :: "json list \<Rightarrow> exc + json list" where
  "lang_codes [] = Inr []"
| "lang_codes (lang # rest) =
     (case py_getitem lang ''code'' of
        Inl e \<Rightarrow> Inl e
      | Inr c \<Rightarrow> (case lang_codes rest of Inl e \<Rightarrow> Inl e | Inr cs \<Rightarrow> Inr (c # cs)))"

text \<open>
  \<^verbatim>\<open>[lang['code'] for lang in self.fetch_languages()]\<close>: the call, the iteration
  over what it returns, and the code of each item.
\<close>

definition fetched_codes :: "cds_handler \<Rightarrow> network \<Rightarrow> world \<Rightarrow> (exc + json list) \<times> world" where
  "fetched_codes self net w =
     (case fetch_languages self net w of
        (Raise e, w') \<Rightarrow> (Inl e, w')
      | (Return v, w') \<Rightarrow>
          (case py_iter v of Inl e \<Rightarrow> Inl e | Inr langs \<Rightarrow> lang_codes langs, w'))"

text \<open>
  The first statement of the \<^verbatim>\<open>try\<close> block and the set the loop runs over: the
  language codes in the order of iteration, or the exception raised on the way.
  A code that is \<^verbatim>\<open>None\<close> or empty is falsy, and then the languages are fetched.
\<close>

definition loop_codes ::
  "(string list \<Rightarrow> string list) \<Rightarrow> cds_handler \<Rightarrow> network \<Rightarrow> string option \<Rightarrow> world
     \<Rightarrow> (exc + string list) \<times> world" where
  "loop_codes order self net language_code w =
     (let (languages, w1) =
        (case language_code of
           None \<Rightarrow> fetched_codes self net w
         | Some code \<Rightarrow>
             if \<not> str_truthy language_code then fetched_codes self net w
             else (Inr [JStr code], w))
      in case languages of
           Inl e \<Rightarrow> (Inl e, w1)
         | Inr ls \<Rightarrow>
             (case set_and ls (configured_language_codes self) of
                Inl e \<Rightarrow> (Inl e, w1)
              | Inr members \<Rightarrow> (Inr (set_iter order members), w1)))"

text \<open>One round of the loop: the \<open>data\<close> of the content of one language.\<close>

definition fetch_content :: "cds_handler \<Rightarrow> network \<Rightarrow> string \<Rightarrow> world \<Rightarrow> (exc + json) \<times> world" where
  "fetch_content self net language_code w =
     (let w1 = send (translations_request self language_code) w in
      case net (translations_request self language_code) of
        Fails e \<Rightarrow> (Inl e, w1)
      | Responds r \<Rightarrow>
          (let w2 = (if \<not> ok r
                     then log_error (''Error retrieving translations from CDS: `'' @ reason r @ ''`'') w1
                     else w1)
           in case (if \<not> ok r then raise_for_status r else None) of
                Some e \<Rightarrow> (Inl e, w2)
              | None \<Rightarrow>
                  (case response_json r of
                     Inl e \<Rightarrow> (Inl e, w2)
                   | Inr json_content \<Rightarrow> (py_getitem json_content ''data'', w2))))"

text \<open>The loop: it ends at the first round that raises, keeping what was stored.\<close>

fun fetch_loop ::
  "cds_handler \<Rightarrow> network \<Rightarrow> string list \<Rightarrow> (string \<times> json) list \<Rightarrow> world
     \<Rightarrow> exc option \<times> (string \<times> json) list \<times> world" where
  "fetch_loop self net [] translations w = (None, translations, w)"
| "fetch_loop self net (language_code # rest) translations w =
     (case fetch_content self net language_code w of
        (Inl e, w') \<Rightarrow> (Some e, translations, w')
      | (Inr d, w') \<Rightarrow>
          fetch_loop self net rest (dict_setitem translations language_code d) w')"

definition translations_except :: "exc \<Rightarrow> string" where
  "translations_except e =
     (if exc_class_of e = KeyError \<or> exc_class_of e = ValueError then
        ''Error retrieving translations from CDS: Malformed response''
      else if exc_class_of e = ConnectionError then
        ''Error retrieving translations from CDS: ConnectionError''
      else ''Error retrieving translations from CDS: UnknownError (`'' @ str_exc e @ ''`)'')"

definition fetch_translations ::
  "(string list \<Rightarrow> string list) \<Rightarrow> cds_handler \<Rightarrow> network \<Rightarrow> string option \<Rightarrow> world
     \<Rightarrow> json outcome \<times> world" where
  "fetch_translations order self net language_code w =
     (case loop_codes order self net language_code w of
        (Inl e, w1) \<Rightarrow> (Return (JObj []), log_error (translations_except e) w1)
      | (Inr codes, w1) \<Rightarrow>
          (case fetch_loop self net codes [] w1 of
             (None, translations, w2) \<Rightarrow> (Return (JObj translations), w2)
           | (Some e, translations, w2) \<Rightarrow>
               (Return (JObj translations), log_error (translations_except e) w2)))"

subsection \<open>push_source_strings\<close>

text \<open>
  A source string as the handler reads it: the attributes \<open>key\<close>, \<open>string\<close>,
  \<open>meta\<close> (a dictionary) and \<open>context\<close>. The three metadata keys of
  \<^verbatim>\<open>transifex.native.consts\<close> are parameters of the model.
\<close>

record source_string =
  key :: string
  string :: string
  meta :: "(string \<times> json) list"
  context' :: json

record native_consts =
  KEY_DEVELOPER_COMMENT :: string
  KEY_CHARACTER_LIMIT :: string
  KEY_TAGS :: string

text \<open>The dictionary literal \<open>MAPPING\<close>: a key written twice keeps its last value.\<close>

definition MAPPING :: "native_consts \<Rightarrow> (string \<times> string) list" where
  "MAPPING K =
     dict_of_pairs
       [(KEY_DEVELOPER_COMMENT K, ''developer_comment''),
        (KEY_CHARACTER_LIMIT K, ''character_limit''),
        (KEY_TAGS K, ''tags'')]"

text \<open>
  The method \<^verbatim>\<open>_serialize\<close> (a name cannot start with an underscore here, as the
  field \<open>context'\<close> cannot be called \<open>context\<close>): the key and the record sent for it.
\<close>

definition serialize :: "native_consts \<Rightarrow> source_string \<Rightarrow> string \<times> json" where
  "serialize K source_string =
     (let m = dict_of_pairs (map (\<lambda>(k, v). (dict_get (MAPPING K) k k, v)) (meta source_string));
          m' = (if py_truthy (context' source_string)
                then dict_setitem m ''context'' (context' source_string) else m)
      in (key source_string, JObj [(''string'', JStr (string source_string)), (''meta'', JObj m')]))"

definition push_request ::
  "native_consts \<Rightarrow> cds_handler \<Rightarrow> string \<Rightarrow> source_string list \<Rightarrow> bool \<Rightarrow> request" where
  "push_request K self sec strings purge =
     \<lparr>req_method = POST, req_url = host self @ PUSH_SOURCE_STRINGS,
      req_authorization = ''Bearer '' @ token self @ '':'' @ sec,
      req_json = Some (JObj
        [(''data'', JObj (dict_of_pairs (map (serialize K) strings))),
         (''meta'', JObj [(''purge'', JBool purge)])])\<rparr>"

text \<open>
  The \<^verbatim>\<open>try\<close> block: the exception raised, if any, and the local variable
  \<open>response\<close>, which is bound only once \<^verbatim>\<open>requests.post\<close> has returned.
\<close>

definition push_try ::
  "network \<Rightarrow> request \<Rightarrow> world \<Rightarrow> exc option \<times> response option \<times> world" where
  "push_try net rq w =
     (case net rq of
        Fails e \<Rightarrow> (Some e, None, send rq w)
      | Responds r \<Rightarrow> (raise_for_status r, Some r, send rq w))"

definition push_except :: "exc \<Rightarrow> string" where
  "push_except e =
     (if exc_class_of e = ConnectionError then
        ''Error pushing source strings to CDS: ConnectionError''
      else ''Error pushing source strings to CDS: UnknownError (`'' @ str_exc e @ ''`)'')"

text \<open>
  \<^verbatim>\<open>return response\<close>: reading a local variable that was never bound raises
  \<^verbatim>\<open>UnboundLocalError\<close> (with the text of CPython up to 3.10).
\<close>

definition return_response :: "response option \<Rightarrow> response outcome" where
  "return_response binding =
     (case binding of
        Some r \<Rightarrow> Return r
      | None \<Rightarrow>
          Raise (Exc UnboundLocalError
            (''local variable '' @ quoted ''response'' @ '' referenced before assignment'')))"

definition push_source_strings ::
  "native_consts \<Rightarrow> cds_handler \<Rightarrow> network \<Rightarrow> source_string list \<Rightarrow> bool \<Rightarrow> world
     \<Rightarrow> response outcome \<times> world" where
  "push_source_strings K self net strings purge w =
     (case secret self of
        None \<Rightarrow>
          (Raise (Exc Exception
             ''You need to use `TRANSIFEX_SECRET` when pushing source content''), w)
      | Some sec \<Rightarrow>
          if \<not> str_truthy (secret self) then
            (Raise (Exc Exception
               ''You need to use `TRANSIFEX_SECRET` when pushing source content''), w)
          else
            (case push_try net (push_request K self sec strings purge) w of
               (None, binding, w1) \<Rightarrow> (return_response binding, w1)
             | (Some e, binding, w1) \<Rightarrow>
                 (return_response binding, log_error (push_except e) w1)))"

text \<open>The messages a call has logged: those of \<open>w'\<close> beyond those of \<open>w\<close>.\<close>

definition new_messages :: "world \<Rightarrow> world \<Rightarrow> string list" where
  "new_messages w w' = drop (length (logged w)) (logged w')"

section \<open>The serialization rule in the words of the specification\<close>

text \<open>
  The fixed renaming of metadata keys: the three known keys are renamed, every other key
  passes through unchanged.
\<close>

definition renamed_key :: "native_consts \<Rightarrow> string \<Rightarrow> string" where
  "renamed_key K k =
     (if k = KEY_TAGS K then ''tags''
      else if k = KEY_CHARACTER_LIMIT K then ''character_limit''
      else if k = KEY_DEVELOPER_COMMENT K then ''developer_comment''
      else k)"

text \<open>
  The \<open>meta\<close> mapping of a serialized source string: each metadata entry under its
  renamed key, in turn, and the context under \<open>context\<close> only when it is non-empty.
\<close>

definition spec_meta :: "native_consts \<Rightarrow> source_string \<Rightarrow> (string \<rightharpoonup> json)" where
  "spec_meta K s =
     (let renamed = foldl (\<lambda>m (k, v). m(renamed_key K k \<mapsto> v)) Map.empty (meta s)
      in if py_truthy (context' s) then renamed(''context'' \<mapsto> context' s) else renamed)"

text \<open>Two source strings with the same key, for the tests of the push.\<close>

definition first_string :: source_string where
  "first_string =
     \<lparr>key = ''k1'', string = ''first'', meta = [(''_comment'', JStr ''note'')],
      context' = JNull\<rparr>"

definition second_string :: source_string where
  "second_string =
     \<lparr>key = ''k1'', string = ''second'', meta = [(''_tags'', JArr [JStr ''t'']), (''x'', JNum 1)],
      context' = JArr [JStr ''ctx'']\<rparr>"

section \<open>The cases of the test suite\<close>

text \<open>
  The handlers, the bodies and the simulated service of \<^verbatim>\<open>tests/native/core/test_cds.py\<close>,
  and a few more responses; the theorems below are evaluated on them.
\<close>

definition test_reader :: cds_handler where
  "test_reader = CDSHandler [''el'', ''en''] ''some_token'' None (Some ''https://some.host'')"

definition test_pusher :: cds_handler where
  "test_pusher =
     CDSHandler [''el'', ''en''] ''some_token'' (Some ''some_secret'') (Some ''https://some.host'')"

definition test_consts :: native_consts where
  "test_consts =
     \<lparr>KEY_DEVELOPER_COMMENT = ''_comment'', KEY_CHARACTER_LIMIT = ''_charlimit'',
      KEY_TAGS = ''_tags''\<rparr>"

definition start :: world where
  "start = \<lparr>logged = [], requested = []\<rparr>"

definition languages_data :: json where
  "languages_data = JArr [JObj [(''code'', JStr ''el'')], JObj [(''code'', JStr ''en'')]]"

definition languages_body :: json where
  "languages_body =
     JObj [(''data'', languages_data), (''meta'', JObj [(''some_key'', JStr ''some_value'')])]"

definition content_data :: "string \<Rightarrow> json" where
  "content_data code =
     JObj [(''key1'', JObj [(''string'', JStr (''key1_'' @ code))]),
           (''key2'', JObj [(''string'', JStr (''key2_'' @ code))])]"

definition content_body :: "string \<Rightarrow> json" where
  "content_body code = JObj [(''data'', content_data code), (''meta'', JObj [])]"

definition respond :: "nat \<Rightarrow> string \<Rightarrow> string + json \<Rightarrow> request \<Rightarrow> response" where
  "respond code rsn d rq = \<lparr>status_code = code, reason = rsn, url = req_url rq, decoded = d\<rparr>"

text \<open>The service answers every request with status 200 and the body of its URL.\<close>

definition net_ok :: network where
  "net_ok rq =
     (if req_url rq = ''https://some.host/languages'' then
        Responds (respond 200 ''OK'' (Inr languages_body) rq)
      else if req_url rq = ''https://some.host/content/el'' then
        Responds (respond 200 ''OK'' (Inr (content_body ''el'')) rq)
      else if req_url rq = ''https://some.host/content/en'' then
        Responds (respond 200 ''OK'' (Inr (content_body ''en'')) rq)
      else Responds (respond 200 ''OK'' (Inr (JObj [(''data'', JArr [])])) rq))"

text \<open>No response is registered: every request fails to connect.\<close>

definition net_down :: network where
  "net_down rq = Fails (Exc ConnectionError ''Connection refused'')"

text \<open>Every request is answered with the given status and the languages body.\<close>

definition net_status :: "nat \<Rightarrow> string \<Rightarrow> network" where
  "net_status code rsn rq = Responds (respond code rsn (Inr languages_body) rq)"

text \<open>The languages are served, the content of \<open>en\<close> fails with status 500.\<close>

definition net_en_fails :: network where
  "net_en_fails rq =
     (if req_url rq = ''https://some.host/content/en'' then
        Responds (respond 500 ''Internal Server Error'' (Inl ''Expecting value'') rq)
      else net_ok rq)"

section \<open>Basic facts\<close>

lemma logged_send [simp]: "logged (send rq w) = logged w"
  by (simp add: send_def)

lemma requested_send [simp]: "requested (send rq w) = requested w @ [rq]"
  by (simp add: send_def)

lemma logged_log_error [simp]: "logged (log_error msg w) = logged w @ [msg]"
  by (simp add: log_error_def)

lemma requested_log_error [simp]: "requested (log_error msg w) = requested w"
  by (simp add: log_error_def)

lemma ok_iff: "ok r \<longleftrightarrow> \<not> (400 \<le> status_code r \<and> status_code r < 600)"
  by (auto simp: ok_def raise_for_status_def)

lemma str_nat_400: "str_nat 400 = ''400''"
  by code_simp

lemma str_nat_422: "str_nat 422 = ''422''"
  by code_simp

lemma str_nat_500: "str_nat 500 = ''500''"
  by code_simp

lemma test_reader_simps:
  "configured_language_codes test_reader = [''el'', ''en'']"
  "token test_reader = ''some_token''"
  "secret test_reader = None"
  "host test_reader = ''https://some.host''"
  by (simp_all add: test_reader_def CDSHandler_def)

lemma test_pusher_simps:
  "configured_language_codes test_pusher = [''el'', ''en'']"
  "token test_pusher = ''some_token''"
  "secret test_pusher = Some ''some_secret''"
  "host test_pusher = ''https://some.host''"
  by (simp_all add: test_pusher_def CDSHandler_def)

lemma languages_request_test_reader:
  "languages_request test_reader =
     \<lparr>req_method = GET, req_url = ''https://some.host/languages'',
      req_authorization = ''Bearer some_token'', req_json = None\<rparr>"
  by (simp add: languages_request_def test_reader_simps FETCH_AVAILABLE_LANGUAGES_def)

lemma translations_request_test_reader:
  "translations_request test_reader code =
     \<lparr>req_method = GET, req_url = ''https://some.host/content/'' @ code,
      req_authorization = ''Bearer some_token'', req_json = None\<rparr>"
  by (simp add: translations_request_def test_reader_simps FETCH_TRANSLATIONS_FOR_LANGUAGE_def)

section \<open>fetch_languages\<close>

text \<open>
  C8. When the languages request is answered with status 200 and a JSON object that has
  a \<open>data\<close> key, \<open>fetch_languages\<close> returns the value stored under \<open>data\<close>, has
  issued that one request and has logged nothing.
\<close>

theorem fetch_languages_data:
  assumes "net (languages_request self) = Responds r"
      and "status_code r = 200"
      and "decoded r = Inr (JObj d)"
      and "map_of d ''data'' = Some v"
  shows "fetch_languages self net w = (Return v, send (languages_request self) w)
         \<and> logged (snd (fetch_languages self net w)) = logged w"
  using assms
  by (simp add: fetch_languages_def fetch_languages_try_def ok_iff response_json_def)

text \<open>The first case of \<^verbatim>\<open>test_fetch_languages\<close>: the two languages are returned.\<close>

theorem fetch_languages_data_witness:
  "net_ok (languages_request test_reader) =
     Responds (respond 200 ''OK'' (Inr languages_body) (languages_request test_reader))
   \<and> fetch_languages test_reader net_ok start =
       (Return languages_data, send (languages_request test_reader) start)
   \<and> logged (snd (fetch_languages test_reader net_ok start)) = []"
proof -
  let ?r = "respond 200 ''OK'' (Inr languages_body) (languages_request test_reader)"
  let ?d = "[(''data'', languages_data), (''meta'', JObj [(''some_key'', JStr ''some_value'')])]"
  have 1: "net_ok (languages_request test_reader) = Responds ?r"
    by (simp add: net_ok_def languages_request_test_reader)
  have 2: "status_code ?r = 200"
    by (simp add: respond_def)
  have 3: "decoded ?r = Inr (JObj ?d)"
    by (simp add: respond_def languages_body_def)
  have 4: "map_of ?d ''data'' = Some languages_data"
    by simp
  show ?thesis
    using fetch_languages_data
      [where net = net_ok and self = test_reader and w = start, OF 1 2 3 4] 1
    by (simp add: start_def)
qed

text \<open>
  C7, as the code has it. The library raises the HTTP error for the statuses 400 to 599
  only, so that is where \<open>fetch_languages\<close> returns the empty list. It then logs two
  messages: the reason phrase, and the UnknownError message whose detail is the text of
  the HTTP error, made of the status code, the reason and the URL of the response.
\<close>

theorem fetch_languages_http_error:
  assumes "net (languages_request self) = Responds r"
      and "400 \<le> status_code r" and "status_code r < 600"
  shows "fst (fetch_languages self net w) = Return (JArr [])
         \<and> requested (snd (fetch_languages self net w)) = requested w @ [languages_request self]
         \<and> logged (snd (fetch_languages self net w)) =
             logged w @
             [''Error retrieving languages from CDS: `'' @ reason r @ ''`'',
              ''Error retrieving languages from CDS: UnknownError (`'' @
                str_nat (status_code r) @
                (if status_code r < 500 then '' Client Error: '' else '' Server Error: '') @
                reason r @ '' for url: '' @ url r @ ''`)'']"
  using assms
  by (simp add: fetch_languages_def fetch_languages_try_def ok_iff raise_for_status_def
      languages_except_def)

text \<open>The bad-request case of \<^verbatim>\<open>test_fetch_languages\<close>, with the message it expects.\<close>

theorem fetch_languages_http_error_witness:
  "net_status 400 ''Bad Request'' (languages_request test_reader) =
     Responds (respond 400 ''Bad Request'' (Inr languages_body) (languages_request test_reader))
   \<and> fst (fetch_languages test_reader (net_status 400 ''Bad Request'') start) = Return (JArr [])
   \<and> logged (snd (fetch_languages test_reader (net_status 400 ''Bad Request'') start)) =
       [''Error retrieving languages from CDS: `Bad Request`'',
        ''Error retrieving languages from CDS: UnknownError (`400 Client Error: Bad Request for url: https://some.host/languages`)'']"
proof -
  let ?r = "respond 400 ''Bad Request'' (Inr languages_body) (languages_request test_reader)"
  have 1: "net_status 400 ''Bad Request'' (languages_request test_reader) = Responds ?r"
    by (simp add: net_status_def)
  have 2: "400 \<le> status_code ?r" and 3: "status_code ?r < 600"
    by (simp_all add: respond_def)
  show ?thesis
    using fetch_languages_http_error
      [where net = "net_status 400 ''Bad Request''" and self = test_reader and w = start,
       OF 1 2 3] 1
    by (simp add: start_def respond_def str_nat_400 languages_request_test_reader)
qed

text \<open>
  C7 as stated fails at a status that is not 2xx and not an error for the library: a
  response with status 302 and a well-formed body is read like a 200 one.
\<close>

theorem fetch_languages_non_2xx_counterexample:
  "status_code (respond 302 ''Found'' (Inr languages_body) (languages_request test_reader)) = 302
   \<and> fst (fetch_languages test_reader (net_status 302 ''Found'') start) = Return languages_data
   \<and> Return languages_data \<noteq> Return (JArr [])
   \<and> logged (snd (fetch_languages test_reader (net_status 302 ''Found'') start)) = []"
  by (simp add: fetch_languages_def fetch_languages_try_def net_status_def respond_def ok_iff
      response_json_def languages_body_def languages_data_def start_def)

section \<open>push_source_strings\<close>

text \<open>
  C2, as the code has it. Without a secret (\<^verbatim>\<open>None\<close> or the empty string) the call
  raises an \<^verbatim>\<open>Exception\<close> whose message names \<^verbatim>\<open>TRANSIFEX_SECRET\<close>, and neither a
  request nor a log message has been made: the world is unchanged.
\<close>

theorem push_without_secret:
  assumes "\<not> str_truthy (secret self)"
  shows "push_source_strings K self net strings purge w =
          (Raise (Exc Exception
             ''You need to use `TRANSIFEX_SECRET` when pushing source content''), w)"
  using assms by (cases "secret self") (auto simp: push_source_strings_def)

text \<open>\<^verbatim>\<open>test_push_source_strings_no_secret\<close>\<close>

theorem push_without_secret_witness:
  "\<not> str_truthy (secret test_reader)
   \<and> push_source_strings test_consts test_reader net_ok [] False start =
       (Raise (Exc Exception
          ''You need to use `TRANSIFEX_SECRET` when pushing source content''), start)
   \<and> requested start = []"
proof -
  have 1: "\<not> str_truthy (secret test_reader)"
    by (simp add: test_reader_simps)
  show ?thesis
    using push_without_secret [OF 1, of test_consts net_ok "[]" False start] 1
    by (simp add: start_def)
qed

text \<open>C2 as stated names a message that the code does not raise.\<close>

theorem push_without_secret_counterexample:
  "secret test_reader = None
   \<and> fst (push_source_strings test_consts test_reader net_ok [] False start) \<noteq>
       Raise (Exc Exception ''You need to use the secret when pushing source content'')"
  by (simp add: push_source_strings_def test_reader_simps)

text \<open>
  C1, as the code has it. With a secret, and when \<^verbatim>\<open>requests.post\<close> returns a
  response, the call returns that response whatever its status. For a status from 400
  to 599 it has logged the UnknownError message with the text of the HTTP error, for
  every other status nothing. (When \<^verbatim>\<open>requests.post\<close> raises, the variable
  \<open>response\<close> is unbound at \<^verbatim>\<open>return response\<close>; the counterexample below
  shows that run.)
\<close>

theorem push_returns_response:
  assumes "secret self = Some sec" and "sec \<noteq> []"
      and "net (push_request K self sec strings purge) = Responds r"
  shows "fst (push_source_strings K self net strings purge w) = Return r
         \<and> requested (snd (push_source_strings K self net strings purge w)) =
             requested w @ [push_request K self sec strings purge]
         \<and> logged (snd (push_source_strings K self net strings purge w)) =
             logged w @
             (if 400 \<le> status_code r \<and> status_code r < 600 then
                [''Error pushing source strings to CDS: UnknownError (`'' @
                   str_nat (status_code r) @
                   (if status_code r < 500 then '' Client Error: '' else '' Server Error: '') @
                   reason r @ '' for url: '' @ url r @ ''`)'']
              else [])"
  using assms
  by (simp add: push_source_strings_def push_try_def return_response_def raise_for_status_def
      push_except_def)

text \<open>The last case of \<^verbatim>\<open>test_push_source_strings\<close>: status 422.\<close>

theorem push_returns_response_witness:
  "secret test_pusher = Some ''some_secret''
   \<and> net_status 422 ''Unprocessable Entity'' (push_request test_consts test_pusher ''some_secret'' [] False) =
       Responds (respond 422 ''Unprocessable Entity'' (Inr languages_body)
         (push_request test_consts test_pusher ''some_secret'' [] False))
   \<and> fst (push_source_strings test_consts test_pusher (net_status 422 ''Unprocessable Entity'')
         [] False start) =
       Return (respond 422 ''Unprocessable Entity'' (Inr languages_body)
         (push_request test_consts test_pusher ''some_secret'' [] False))
   \<and> logged (snd (push_source_strings test_consts test_pusher
         (net_status 422 ''Unprocessable Entity'') [] False start)) =
       [''Error pushing source strings to CDS: UnknownError (`422 Client Error: Unprocessable Entity for url: https://some.host/content/`)'']"
proof -
  let ?rq = "push_request test_consts test_pusher ''some_secret'' [] False"
  let ?r = "respond 422 ''Unprocessable Entity'' (Inr languages_body) ?rq"
  have 1: "secret test_pusher = Some ''some_secret''"
    by (simp add: test_pusher_simps)
  have 2: "''some_secret'' \<noteq> []"
    by simp
  have 3: "net_status 422 ''Unprocessable Entity'' ?rq = Responds ?r"
    by (simp add: net_status_def)
  show ?thesis
    using push_returns_response
      [where net = "net_status 422 ''Unprocessable Entity''" and self = test_pusher
         and K = test_consts and strings = "[]" and purge = False and w = start,
       OF 1 2 3] 1 3
    by (simp add: start_def respond_def str_nat_422 push_request_def test_pusher_simps
        PUSH_SOURCE_STRINGS_def)
qed

text \<open>
  C1 as stated fails twice. When the connection fails the message is logged, but the call
  then raises \<^verbatim>\<open>UnboundLocalError\<close> instead of returning; and a status that is not
  2xx and not an error for the library (here 302) logs nothing.
\<close>

theorem push_returns_response_counterexample:
  "secret test_pusher = Some ''some_secret''
   \<and> fst (push_source_strings test_consts test_pusher net_down [] False start) =
       Raise (Exc UnboundLocalError
         (''local variable '' @ quoted ''response'' @ '' referenced before assignment''))
   \<and> logged (snd (push_source_strings test_consts test_pusher net_down [] False start)) =
       [''Error pushing source strings to CDS: ConnectionError'']
   \<and> logged (snd (push_source_strings test_consts test_pusher (net_status 302 ''Found'')
         [] False start)) = []"
  by (simp add: push_source_strings_def test_pusher_simps push_try_def net_down_def
      return_response_def push_except_def start_def net_status_def respond_def
      raise_for_status_def)

section \<open>fetch_translations when the languages cannot be fetched\<close>

lemma languages_except_prefix:
  "prefix ''Error retrieving languages from CDS'' (languages_except e)"
  by (simp add: languages_except_def)

lemma languages_except_not_translations:
  "\<not> prefix ''Error retrieving translations from CDS'' (languages_except e)"
  by (simp add: languages_except_def)

lemma fetch_languages_try_requested:
  "requested (snd (fetch_languages_try self net w)) = requested w @ [languages_request self]"
  by (simp add: fetch_languages_try_def Let_def split: net_result.splits option.splits sum.splits)

lemma fetch_languages_try_logged:
  "logged (snd (fetch_languages_try self net w)) =
     logged w @
     (case net (languages_request self) of
        Fails e \<Rightarrow> []
      | Responds r \<Rightarrow>
          if ok r then [] else [''Error retrieving languages from CDS: `'' @ reason r @ ''`''])"
  by (simp add: fetch_languages_try_def Let_def split: net_result.splits option.splits sum.splits)

lemma fetch_languages_fail:
  assumes "fst (fetch_languages_try self net w) = Inl e"
  shows "fst (fetch_languages self net w) = Return (JArr [])"
    and "requested (snd (fetch_languages self net w)) = requested w @ [languages_request self]"
    and "logged (snd (fetch_languages self net w)) =
           logged (snd (fetch_languages_try self net w)) @ [languages_except e]"
  using assms fetch_languages_try_requested [of self net w]
  by (auto simp: fetch_languages_def split: prod.splits sum.splits)

lemma fetched_codes_fail:
  assumes "fst (fetch_languages_try self net w) = Inl e"
  shows "fetched_codes self net w = (Inr [], snd (fetch_languages self net w))"
  using fetch_languages_fail(1) [OF assms]
  by (auto simp: fetched_codes_def split: prod.splits outcome.splits)

lemma set_iter_Nil [simp]: "set_iter order [] = []"
  by (simp add: set_iter_def)

lemma set_iter_distinct: "distinct members \<Longrightarrow> distinct (set_iter order members)"
  by (simp add: set_iter_def)

lemma set_iter_set [simp]: "set (set_iter order members) = set members"
  by (simp add: set_iter_def)

lemma distinct_singleton:
  assumes "distinct ys" and "set ys = {c}"
  shows "ys = [c]"
proof -
  have "length ys = 1"
    using distinct_card [OF assms(1)] assms(2) by simp
  then obtain y where "ys = [y]"
    by (cases ys) auto
  with assms(2) show ?thesis by simp
qed

lemma set_iter_single [simp]: "set_iter order [c] = [c]"
  by (auto simp: set_iter_def dest: distinct_singleton)

text \<open>
  C3. When no language code is given (\<^verbatim>\<open>None\<close> or empty) and the \<^verbatim>\<open>try\<close> block
  of \<open>fetch_languages\<close> raises, whatever the exception, \<open>fetch_translations\<close>
  returns the empty mapping, the languages request is the only request issued, and
  every message logged (there is at least one) starts with
  \<open>Error retrieving languages from CDS\<close>, so none is a translations message.
\<close>

theorem fetch_translations_languages_fail:
  assumes "\<not> str_truthy language_code"
      and "fst (fetch_languages_try self net w) = Inl e"
  shows "fst (fetch_translations order self net language_code w) = Return (JObj [])
         \<and> requested (snd (fetch_translations order self net language_code w)) =
             requested w @ [languages_request self]
         \<and> new_messages w (snd (fetch_translations order self net language_code w)) \<noteq> []
         \<and> (\<forall>m \<in> set (new_messages w (snd (fetch_translations order self net language_code w))).
               prefix ''Error retrieving languages from CDS'' m
               \<and> \<not> prefix ''Error retrieving translations from CDS'' m)"
proof -
  have codes: "loop_codes order self net language_code w =
                 (Inr [], snd (fetch_languages self net w))"
    using assms(1) fetched_codes_fail [OF assms(2)]
    by (cases language_code) (simp_all add: loop_codes_def set_and_def)
  have res: "fetch_translations order self net language_code w =
               (Return (JObj []), snd (fetch_languages self net w))"
    by (simp add: fetch_translations_def codes)
  have lg: "logged (snd (fetch_languages self net w)) =
              logged (snd (fetch_languages_try self net w)) @ [languages_except e]"
    by (rule fetch_languages_fail(3) [OF assms(2)])
  define status_msgs where "status_msgs =
     (case net (languages_request self) of
        Fails e \<Rightarrow> []
      | Responds r \<Rightarrow>
          if ok r then [] else [''Error retrieving languages from CDS: `'' @ reason r @ ''`''])"
  have msgs: "new_messages w (snd (fetch_languages self net w)) =
                status_msgs @ [languages_except e]"
    by (simp add: new_messages_def lg fetch_languages_try_logged status_msgs_def)
  have st: "\<forall>m \<in> set status_msgs.
               prefix ''Error retrieving languages from CDS'' m
               \<and> \<not> prefix ''Error retrieving translations from CDS'' m"
    by (cases "net (languages_request self)") (auto simp: status_msgs_def)
  have "new_messages w (snd (fetch_languages self net w)) \<noteq> []"
    by (simp add: msgs)
  moreover have "\<forall>m \<in> set (new_messages w (snd (fetch_languages self net w))).
               prefix ''Error retrieving languages from CDS'' m
               \<and> \<not> prefix ''Error retrieving translations from CDS'' m"
    using st languages_except_prefix [of e] languages_except_not_translations [of e]
    by (simp add: msgs)
  ultimately show ?thesis
    using fetch_languages_fail(2) [OF assms(2)] by (simp add: res)
qed

text \<open>
  The failing-languages case of \<^verbatim>\<open>test_fetch_translations\<close>: status 500, and the
  message the test expects is the last one logged.
\<close>

theorem fetch_translations_languages_fail_witness:
  "\<not> str_truthy None
   \<and> fst (fetch_languages_try test_reader (net_status 500 ''Internal Server Error'') start) =
       Inl (Exc HTTPError
         ''500 Server Error: Internal Server Error for url: https://some.host/languages'')
   \<and> fst (fetch_translations id test_reader (net_status 500 ''Internal Server Error'') None start) =
       Return (JObj [])
   \<and> requested (snd (fetch_translations id test_reader
         (net_status 500 ''Internal Server Error'') None start)) = [languages_request test_reader]
   \<and> new_messages start (snd (fetch_translations id test_reader
         (net_status 500 ''Internal Server Error'') None start)) =
       [''Error retrieving languages from CDS: `Internal Server Error`'',
        ''Error retrieving languages from CDS: UnknownError (`500 Server Error: Internal Server Error for url: https://some.host/languages`)'']"
proof -
  let ?net = "net_status 500 ''Internal Server Error''"
  have 1: "\<not> str_truthy None"
    by simp
  have 2: "fst (fetch_languages_try test_reader ?net start) =
      Inl (Exc HTTPError
        ''500 Server Error: Internal Server Error for url: https://some.host/languages'')"
    by (simp add: fetch_languages_try_def net_status_def respond_def ok_iff raise_for_status_def
        str_nat_500 languages_request_test_reader)
  have 3: "new_messages start (snd (fetch_translations id test_reader ?net None start)) =
       [''Error retrieving languages from CDS: `Internal Server Error`'',
        ''Error retrieving languages from CDS: UnknownError (`500 Server Error: Internal Server Error for url: https://some.host/languages`)'']"
    by (simp add: new_messages_def fetch_translations_def loop_codes_def fetched_codes_def
        fetch_languages_def fetch_languages_try_def net_status_def respond_def ok_iff
        raise_for_status_def str_nat_500 languages_request_test_reader languages_except_def
        set_and_def start_def)
  show ?thesis
    using fetch_translations_languages_fail
      [where net = ?net and self = test_reader and w = start and order = id, OF 1 2] 1 2 3
    by (simp add: start_def)
qed

section \<open>The read operations never raise\<close>

text \<open>
  C6. Whatever the service does (it fails to connect or raises anything else, answers
  with any status, with a body that is not JSON or that lacks a key),
  \<open>fetch_languages\<close> returns, and returns the empty list whenever its \<^verbatim>\<open>try\<close>
  block raised; \<open>fetch_translations\<close> returns, and what it returns is a mapping.
\<close>

theorem reads_never_raise:
  "(\<exists>v w'. fetch_languages self net w = (Return v, w')
            \<and> (isl (fst (fetch_languages_try self net w)) \<longrightarrow> v = JArr []))
   \<and> (\<exists>d w'. fetch_translations order self net language_code w = (Return (JObj d), w'))"
  by (auto simp: fetch_languages_def fetch_translations_def
      split: prod.splits sum.splits option.splits)

text \<open>The connection-error cases of the two tests.\<close>

theorem reads_never_raise_witness:
  "isl (fst (fetch_languages_try test_reader net_down start))
   \<and> fst (fetch_languages test_reader net_down start) = Return (JArr [])
   \<and> fst (fetch_translations id test_reader net_down (Some ''el'') start) = Return (JObj [])
   \<and> logged (snd (fetch_translations id test_reader net_down (Some ''el'') start)) =
       [''Error retrieving translations from CDS: ConnectionError'']"
proof -
  have 1: "isl (fst (fetch_languages_try test_reader net_down start))"
    by (simp add: fetch_languages_try_def net_down_def)
  have 2: "fetch_translations id test_reader net_down (Some ''el'') start =
      (Return (JObj []),
       log_error ''Error retrieving translations from CDS: ConnectionError''
         (send (translations_request test_reader ''el'') start))"
    by (simp add: fetch_translations_def loop_codes_def set_and_def test_reader_simps
        fetch_content_def net_down_def translations_except_def)
  show ?thesis
    using reads_never_raise [of test_reader net_down start id "Some ''el''"] 1 2
    by (auto simp: start_def)
qed

section \<open>The loop of fetch_translations\<close>

lemma fetch_content_fst:
  "fst (fetch_content self net c w) = fst (fetch_content self net c w')"
  by (simp add: fetch_content_def Let_def split: net_result.splits option.splits sum.splits)

lemma fetch_content_requested:
  "requested (snd (fetch_content self net c w)) = requested w @ [translations_request self c]"
  by (simp add: fetch_content_def Let_def split: net_result.splits option.splits sum.splits)

lemma fetch_content_logged:
  "logged (snd (fetch_content self net c w)) =
     logged w @
     (case net (translations_request self c) of
        Fails e \<Rightarrow> []
      | Responds r \<Rightarrow>
          if ok r then [] else [''Error retrieving translations from CDS: `'' @ reason r @ ''`''])"
  by (simp add: fetch_content_def Let_def split: net_result.splits option.splits sum.splits)

lemma fetch_content_Inr:
  assumes "fst (fetch_content self net c w0) = Inr d"
  shows "fetch_content self net c w = (Inr d, send (translations_request self c) w)"
  using assms
  by (auto simp: fetch_content_def Let_def ok_def split: net_result.splits option.splits sum.splits if_splits)

lemma fetch_content_data:
  assumes "net (translations_request self c) = Responds r" and "ok r"
      and "decoded r = Inr (JObj d)" and "map_of d ''data'' = Some v"
  shows "fetch_content self net c w = (Inr v, send (translations_request self c) w)"
  using assms by (simp add: fetch_content_def response_json_def)

lemma fetch_loop_abort:
  assumes "\<forall>p \<in> set pre. fst (fetch_content self net p w0) = Inr (data p)"
      and "fst (fetch_content self net c w0) = Inl e"
  shows "fetch_loop self net (pre @ c # post) acc w =
          (Some e, foldl (\<lambda>d p. dict_setitem d p (data p)) acc pre,
           snd (fetch_content self net c
             (foldl (\<lambda>w p. send (translations_request self p) w) w pre)))"
  using assms(1)
proof (induction pre arbitrary: acc w)
  case Nil
  have "fst (fetch_content self net c w) = Inl e"
    using assms(2) fetch_content_fst [of self net c w w0] by simp
  then show ?case
    by (cases "fetch_content self net c w") simp
next
  case (Cons p pre)
  have "fst (fetch_content self net p w0) = Inr (data p)"
    using Cons.prems by simp
  then have step: "fetch_content self net p w = (Inr (data p), send (translations_request self p) w)"
    by (rule fetch_content_Inr)
  show ?case
    using Cons.IH Cons.prems by (simp add: step)
qed

lemma foldl_send_requested:
  "requested (foldl (\<lambda>w p. send (f p) w) w ps) = requested w @ map f ps"
  by (induction ps arbitrary: w) simp_all

lemma foldl_send_logged:
  "logged (foldl (\<lambda>w p. send (f p) w) w ps) = logged w"
  by (induction ps arbitrary: w) simp_all

lemma dict_setitem_fresh: "k \<notin> fst ` set d \<Longrightarrow> dict_setitem d k v = d @ [(k, v)]"
  by (induction d k v rule: dict_setitem.induct) auto

lemma foldl_dict_setitem_distinct:
  assumes "distinct ps" and "set ps \<inter> fst ` set acc = {}"
  shows "foldl (\<lambda>d p. dict_setitem d p (f p)) acc ps = acc @ map (\<lambda>p. (p, f p)) ps"
  using assms
proof (induction ps arbitrary: acc)
  case Nil
  then show ?case by simp
next
  case (Cons p ps)
  have fresh: "dict_setitem acc p (f p) = acc @ [(p, f p)]"
    using Cons.prems(2) by (intro dict_setitem_fresh) auto
  have "set ps \<inter> fst ` set (acc @ [(p, f p)]) = {}"
    using Cons.prems by auto
  with Cons.IH [of "acc @ [(p, f p)]"] Cons.prems(1) show ?case
    by (simp add: fresh)
qed

lemma loop_codes_distinct:
  assumes "loop_codes order self net language_code w = (Inr codes, w1)"
  shows "distinct codes"
proof -
  obtain ls w' where 1: "(case language_code of
           None \<Rightarrow> fetched_codes self net w
         | Some code \<Rightarrow>
             if \<not> str_truthy language_code then fetched_codes self net w
             else (Inr [JStr code], w)) = (ls, w')"
    by (cases "(case language_code of
           None \<Rightarrow> fetched_codes self net w
         | Some code \<Rightarrow>
             if \<not> str_truthy language_code then fetched_codes self net w
             else (Inr [JStr code], w))")
  from assms show ?thesis
    unfolding loop_codes_def 1 Let_def
    by (auto simp: set_and_def set_iter_distinct split: sum.splits option.splits)
qed

lemma translations_match_languages:
  "\<exists>rest. languages_except e = ''Error retrieving languages from CDS: '' @ rest
        \<and> translations_except e = ''Error retrieving translations from CDS: '' @ rest"
  by (simp add: languages_except_def translations_except_def)

text \<open>The runs of the test service that the theorems are evaluated on.\<close>

lemma content_request_el:
  "net_en_fails (translations_request test_reader ''el'') =
     Responds (respond 200 ''OK'' (Inr (content_body ''el'')) (translations_request test_reader ''el''))"
  by (simp add: net_en_fails_def net_ok_def translations_request_test_reader)

lemma content_request_en:
  "net_en_fails (translations_request test_reader ''en'') =
     Responds (respond 500 ''Internal Server Error'' (Inl ''Expecting value'')
       (translations_request test_reader ''en''))"
  by (simp add: net_en_fails_def translations_request_test_reader)

lemma en_fails_el:
  "fetch_content test_reader net_en_fails ''el'' w =
     (Inr (content_data ''el''), send (translations_request test_reader ''el'') w)"
  by (simp add: fetch_content_def content_request_el respond_def ok_iff response_json_def
      content_body_def)

lemma en_fails_en:
  "fetch_content test_reader net_en_fails ''en'' w =
     (Inl (Exc HTTPError
        ''500 Server Error: Internal Server Error for url: https://some.host/content/en''),
      log_error ''Error retrieving translations from CDS: `Internal Server Error`''
        (send (translations_request test_reader ''en'') w))"
  by (simp add: fetch_content_def net_en_fails_def respond_def ok_iff raise_for_status_def
      str_nat_500 translations_request_test_reader)

lemma languages_ok:
  "fetch_languages test_reader net_en_fails w =
     (Return languages_data, send (languages_request test_reader) w)"
  "fetch_languages test_reader net_ok w =
     (Return languages_data, send (languages_request test_reader) w)"
  by (simp_all add: fetch_languages_def fetch_languages_try_def net_en_fails_def net_ok_def
      languages_request_test_reader respond_def ok_iff response_json_def languages_body_def)

lemma fetched_codes_ok:
  "fetched_codes test_reader net_en_fails w =
     (Inr [JStr ''el'', JStr ''en''], send (languages_request test_reader) w)"
  "fetched_codes test_reader net_ok w =
     (Inr [JStr ''el'', JStr ''en''], send (languages_request test_reader) w)"
  by (simp_all add: fetched_codes_def languages_ok languages_data_def)

lemma en_fails_codes:
  "loop_codes id test_reader net_en_fails None w =
     (Inr [''el'', ''en''], send (languages_request test_reader) w)"
  by (simp add: loop_codes_def fetched_codes_ok set_and_def set_iter_def test_reader_simps)

lemma start_empty: "logged start = []" "requested start = []"
  by (simp_all add: start_def)

lemma en_fails_run:
  "fetch_translations id test_reader net_en_fails None start =
     (Return (JObj [(''el'', content_data ''el'')]),
      \<lparr>logged =
         [''Error retrieving translations from CDS: `Internal Server Error`'',
          ''Error retrieving translations from CDS: UnknownError (`500 Server Error: Internal Server Error for url: https://some.host/content/en`)''],
       requested =
         [languages_request test_reader, translations_request test_reader ''el'',
          translations_request test_reader ''en'']\<rparr>)"
  by (simp add: fetch_translations_def en_fails_codes en_fails_el en_fails_en
      translations_except_def start_def send_def log_error_def)

lemma content_ok_el:
  "net_ok (translations_request test_reader ''el'') =
     Responds (respond 200 ''OK'' (Inr (content_body ''el'')) (translations_request test_reader ''el''))"
  by (simp add: net_ok_def translations_request_test_reader)

lemma content_ok:
  "fetch_content test_reader net_ok ''el'' w =
     (Inr (content_data ''el''), send (translations_request test_reader ''el'') w)"
  "fetch_content test_reader net_ok ''en'' w =
     (Inr (content_data ''en''), send (translations_request test_reader ''en'') w)"
  by (simp_all add: fetch_content_def net_ok_def translations_request_test_reader respond_def
      ok_iff response_json_def content_body_def)

lemma empty_code_run:
  "fetch_translations id test_reader net_ok (Some []) start =
     (Return (JObj [(''el'', content_data ''el''), (''en'', content_data ''en'')]),
      \<lparr>logged = [],
       requested =
         [languages_request test_reader, translations_request test_reader ''el'',
          translations_request test_reader ''en'']\<rparr>)"
  by (simp add: fetch_translations_def loop_codes_def fetched_codes_ok set_and_def set_iter_def
      test_reader_simps content_ok start_def send_def)

text \<open>
  C4, as the code has it. The language codes have been obtained (\<open>loop_codes\<close> returns
  the list the loop runs over), the rounds for the codes \<open>pre\<close> succeed and the round for
  \<open>c\<close> raises \<open>e\<close>, whatever \<open>e\<close> is. Then no request is made for the codes after
  \<open>c\<close>, the mapping returned holds exactly the data of \<open>pre\<close>, and the handler logs one
  message, classified as in \<open>fetch_languages\<close> with \<open>translations\<close> for \<open>languages\<close>.
  When the failure is an error status (400 to 599) that message is the second one logged:
  the reason phrase is logged before the HTTP error is raised.
\<close>

theorem fetch_translations_abort:
  assumes "loop_codes order self net language_code w = (Inr (pre @ c # post), w1)"
      and "\<forall>p \<in> set pre. fst (fetch_content self net p w1) = Inr (data p)"
      and "fst (fetch_content self net c w1) = Inl e"
  shows "fst (fetch_translations order self net language_code w) =
           Return (JObj (map (\<lambda>p. (p, data p)) pre))
         \<and> requested (snd (fetch_translations order self net language_code w)) =
             requested w1 @ map (translations_request self) (pre @ [c])
         \<and> logged (snd (fetch_translations order self net language_code w)) =
             logged w1 @
             (case net (translations_request self c) of
                Fails x \<Rightarrow> []
              | Responds r \<Rightarrow>
                  if ok r then []
                  else [''Error retrieving translations from CDS: `'' @ reason r @ ''`'']) @
             [translations_except e]
         \<and> (\<exists>rest. languages_except e = ''Error retrieving languages from CDS: '' @ rest
               \<and> translations_except e = ''Error retrieving translations from CDS: '' @ rest)"
proof -
  have d: "distinct pre"
    using loop_codes_distinct [OF assms(1)] by simp
  have acc: "foldl (\<lambda>d p. dict_setitem d p (data p)) [] pre = map (\<lambda>p. (p, data p)) pre"
    using foldl_dict_setitem_distinct [OF d, of "[]" data] by simp
  have loop: "fetch_loop self net (pre @ c # post) [] w1 =
          (Some e, map (\<lambda>p. (p, data p)) pre,
           snd (fetch_content self net c
             (foldl (\<lambda>w p. send (translations_request self p) w) w1 pre)))"
    using fetch_loop_abort [OF assms(2) assms(3), of post "[]" w1] by (simp add: acc)
  show ?thesis
    using translations_match_languages [of e]
    by (simp add: fetch_translations_def assms(1) loop fetch_content_requested
        fetch_content_logged foldl_send_requested foldl_send_logged)
qed

text \<open>The languages \<open>el\<close> and \<open>en\<close> are served, the content of \<open>en\<close> answers 500.\<close>

theorem fetch_translations_abort_witness:
  "loop_codes id test_reader net_en_fails None start =
     (Inr ([''el''] @ ''en'' # []), send (languages_request test_reader) start)
   \<and> fst (fetch_content test_reader net_en_fails ''el''
         (send (languages_request test_reader) start)) = Inr (content_data ''el'')
   \<and> fst (fetch_content test_reader net_en_fails ''en''
         (send (languages_request test_reader) start)) =
       Inl (Exc HTTPError
         ''500 Server Error: Internal Server Error for url: https://some.host/content/en'')
   \<and> fst (fetch_translations id test_reader net_en_fails None start) =
       Return (JObj [(''el'', content_data ''el'')])
   \<and> requested (snd (fetch_translations id test_reader net_en_fails None start)) =
       [languages_request test_reader, translations_request test_reader ''el'',
        translations_request test_reader ''en'']
   \<and> logged (snd (fetch_translations id test_reader net_en_fails None start)) =
       [''Error retrieving translations from CDS: `Internal Server Error`'',
        ''Error retrieving translations from CDS: UnknownError (`500 Server Error: Internal Server Error for url: https://some.host/content/en`)'']"
proof -
  let ?w1 = "send (languages_request test_reader) start"
  let ?e = "Exc HTTPError
         ''500 Server Error: Internal Server Error for url: https://some.host/content/en''"
  have 1: "loop_codes id test_reader net_en_fails None start = (Inr ([''el''] @ ''en'' # []), ?w1)"
    by (simp add: en_fails_codes)
  have 2: "\<forall>p \<in> set [''el'']. fst (fetch_content test_reader net_en_fails p ?w1) = Inr (content_data p)"
    by (simp add: en_fails_el)
  have 3: "fst (fetch_content test_reader net_en_fails ''en'' ?w1) = Inl ?e"
    by (simp add: en_fails_en)
  show ?thesis
    using fetch_translations_abort
      [where order = id and self = test_reader and net = net_en_fails and language_code = None
         and w = start and ?w1.0 = ?w1 and pre = "[''el'']" and c = "''en''" and post = "[]"
         and data = content_data and e = ?e, OF 1 2 3] 1 2 3
    by (simp add: content_request_en respond_def ok_iff translations_except_def start_def)
qed

text \<open>
  C4 as stated fails on an error status: two messages are logged, not exactly one.
\<close>

theorem fetch_translations_abort_counterexample:
  "fst (fetch_languages test_reader net_en_fails start) = Return languages_data
   \<and> status_code (respond 500 ''Internal Server Error'' (Inl ''Expecting value'')
         (translations_request test_reader ''en'')) = 500
   \<and> new_messages start (snd (fetch_translations id test_reader net_en_fails None start)) =
       [''Error retrieving translations from CDS: `Internal Server Error`'',
        ''Error retrieving translations from CDS: UnknownError (`500 Server Error: Internal Server Error for url: https://some.host/content/en`)'']
   \<and> length (new_messages start
         (snd (fetch_translations id test_reader net_en_fails None start))) = 2"
  using start_empty by (simp add: languages_ok en_fails_run new_messages_def respond_def)

section \<open>fetch_translations with a language code\<close>

text \<open>
  C5, as the code has it. With a language code that is not empty, \<open>fetch_languages\<close> is
  not called: the loop runs over the code alone when it is configured and over nothing
  otherwise, the only request is the content request of that code (which is not the
  languages request), and when that request is answered with an ok status and a JSON
  object with a \<open>data\<close> key, the result maps the code to that \<open>data\<close>.
\<close>

theorem fetch_translations_explicit_code:
  assumes "code \<noteq> []"
  shows "loop_codes order self net (Some code) w =
           (Inr (if code \<in> set (configured_language_codes self) then [code] else []), w)
         \<and> requested (snd (fetch_translations order self net (Some code) w)) =
             requested w @
             (if code \<in> set (configured_language_codes self)
              then [translations_request self code] else [])
         \<and> translations_request self code \<noteq> languages_request self
         \<and> (code \<in> set (configured_language_codes self)
              \<and> net (translations_request self code) = Responds r \<and> ok r
              \<and> decoded r = Inr (JObj d) \<and> map_of d ''data'' = Some v
            \<longrightarrow> fetch_translations order self net (Some code) w =
                  (Return (JObj [(code, v)]), send (translations_request self code) w))
         \<and> (code \<notin> set (configured_language_codes self)
            \<longrightarrow> fetch_translations order self net (Some code) w = (Return (JObj []), w))"
proof -
  have codes: "loop_codes order self net (Some code) w =
           (Inr (if code \<in> set (configured_language_codes self) then [code] else []), w)"
    using assms by (simp add: loop_codes_def set_and_def)
  have rq: "requested (snd (fetch_translations order self net (Some code) w)) =
             requested w @
             (if code \<in> set (configured_language_codes self)
              then [translations_request self code] else [])"
    using fetch_content_requested [of self net code w]
    by (auto simp: fetch_translations_def codes split: prod.splits sum.splits)
  have ne: "translations_request self code \<noteq> languages_request self"
    by (simp add: translations_request_def languages_request_def
        FETCH_TRANSLATIONS_FOR_LANGUAGE_def FETCH_AVAILABLE_LANGUAGES_def)
  have good: "fetch_translations order self net (Some code) w =
                  (Return (JObj [(code, v)]), send (translations_request self code) w)"
    if "code \<in> set (configured_language_codes self)"
      and "net (translations_request self code) = Responds r" and "ok r"
      and "decoded r = Inr (JObj d)" and "map_of d ''data'' = Some v"
    using that fetch_content_data [of net self code r d v w]
    by (simp add: fetch_translations_def codes)
  have none: "fetch_translations order self net (Some code) w = (Return (JObj []), w)"
    if "code \<notin> set (configured_language_codes self)"
    using that by (simp add: fetch_translations_def codes)
  show ?thesis
    using codes rq ne good none by blast
qed

text \<open>The language-code case of \<^verbatim>\<open>test_fetch_translations\<close>.\<close>

theorem fetch_translations_explicit_code_witness:
  "''el'' \<noteq> []
   \<and> loop_codes id test_reader net_ok (Some ''el'') start = (Inr [''el''], start)
   \<and> fetch_translations id test_reader net_ok (Some ''el'') start =
       (Return (JObj [(''el'', content_data ''el'')]),
        send (translations_request test_reader ''el'') start)
   \<and> requested (snd (fetch_translations id test_reader net_ok (Some ''el'') start)) =
       [translations_request test_reader ''el'']"
proof -
  let ?r = "respond 200 ''OK'' (Inr (content_body ''el'')) (translations_request test_reader ''el'')"
  have 1: "''el'' \<noteq> []"
    by simp
  have 2: "''el'' \<in> set (configured_language_codes test_reader)"
    by (simp add: test_reader_simps)
  have 3: "ok ?r" and 4: "decoded ?r = Inr (JObj [(''data'', content_data ''el''), (''meta'', JObj [])])"
    by (simp_all add: ok_iff respond_def content_body_def)
  have 5: "map_of [(''data'', content_data ''el''), (''meta'', JObj [])] ''data'' =
      Some (content_data ''el'')"
    by simp
  show ?thesis
    using fetch_translations_explicit_code
      [where code = "''el''" and order = id and self = test_reader and net = net_ok
         and w = start and r = ?r
         and d = "[(''data'', content_data ''el''), (''meta'', JObj [])]"
         and v = "content_data ''el''", OF 1] 2 3 4 5 content_ok_el
    by (simp add: start_def)
qed

text \<open>
  C5 as stated fails for the empty code: it is falsy, so the languages are fetched and
  the content of every configured language is requested.
\<close>

theorem fetch_translations_explicit_code_counterexample:
  "fst (fetch_translations id test_reader net_ok (Some []) start) =
     Return (JObj [(''el'', content_data ''el''), (''en'', content_data ''en'')])
   \<and> requested (snd (fetch_translations id test_reader net_ok (Some []) start)) =
       [languages_request test_reader, translations_request test_reader ''el'',
        translations_request test_reader ''en'']
   \<and> languages_request test_reader \<in>
       set (requested (snd (fetch_translations id test_reader net_ok (Some []) start)))"
  by (simp add: empty_code_run)

section \<open>The request of push_source_strings\<close>

lemma map_of_dict_setitem: "map_of (dict_setitem d k v) = (map_of d)(k \<mapsto> v)"
  by (induction d k v rule: dict_setitem.induct) auto

lemma keys_dict_setitem: "fst ` set (dict_setitem d k v) = insert k (fst ` set d)"
  by (induction d k v rule: dict_setitem.induct) auto

lemma distinct_dict_setitem:
  "distinct (map fst d) \<Longrightarrow> distinct (map fst (dict_setitem d k v))"
proof (induction d k v rule: dict_setitem.induct)
  case (1 k v)
  then show ?case by simp
next
  case (2 k' v' d k v)
  then show ?case
    using keys_dict_setitem [of d k v] by (auto simp: image_iff)
qed

lemma dict_of_pairs_snoc:
  "dict_of_pairs (ps @ [(k, v)]) = dict_setitem (dict_of_pairs ps) k v"
  by (simp add: dict_of_pairs_def)

lemma map_of_dict_of_pairs: "map_of (dict_of_pairs ps) = map_of (rev ps)"
proof (induction ps rule: rev_induct)
  case Nil
  then show ?case by (simp add: dict_of_pairs_def)
next
  case (snoc p ps)
  obtain k v where p: "p = (k, v)" by (cases p)
  show ?case
    by (simp add: p dict_of_pairs_snoc map_of_dict_setitem snoc.IH)
qed

lemma keys_dict_of_pairs: "fst ` set (dict_of_pairs ps) = fst ` set ps"
proof (induction ps rule: rev_induct)
  case Nil
  then show ?case by (simp add: dict_of_pairs_def)
next
  case (snoc p ps)
  obtain k v where p: "p = (k, v)" by (cases p)
  show ?case
    by (simp add: p dict_of_pairs_snoc keys_dict_setitem snoc.IH)
qed

lemma distinct_dict_of_pairs: "distinct (map fst (dict_of_pairs ps))"
proof (induction ps rule: rev_induct)
  case Nil
  then show ?case by (simp add: dict_of_pairs_def)
next
  case (snoc p ps)
  obtain k v where p: "p = (k, v)" by (cases p)
  show ?case
    by (simp add: p dict_of_pairs_snoc distinct_dict_setitem snoc.IH)
qed

lemma MAPPING_get: "dict_get (MAPPING K) k k = renamed_key K k"
  by (simp add: dict_get_def MAPPING_def map_of_dict_of_pairs renamed_key_def)

lemma map_add_upd_first:
  "m0(k \<mapsto> v) ++ M = m0 ++ ([k \<mapsto> v] ++ M)"
  by (rule ext) (simp add: map_add_def split: option.splits)

lemma foldl_map_upd:
  "foldl (\<lambda>m (k, v). m(f k \<mapsto> v)) m0 ps = m0 ++ map_of (rev (map (\<lambda>(k, v). (f k, v)) ps))"
proof (induction ps arbitrary: m0)
  case Nil
  then show ?case by simp
next
  case (Cons p ps)
  obtain k v where p: "p = (k, v)" by (cases p)
  have "foldl (\<lambda>m (k, v). m(f k \<mapsto> v)) m0 (p # ps) =
        foldl (\<lambda>m (k, v). m(f k \<mapsto> v)) (m0(f k \<mapsto> v)) ps"
    by (simp add: p)
  also have "\<dots> = m0(f k \<mapsto> v) ++ map_of (rev (map (\<lambda>(k, v). (f k, v)) ps))"
    by (rule Cons.IH)
  also have "\<dots> = m0 ++ ([f k \<mapsto> v] ++ map_of (rev (map (\<lambda>(k, v). (f k, v)) ps)))"
    by (rule map_add_upd_first)
  also have "\<dots> = m0 ++ map_of (rev (map (\<lambda>(k, v). (f k, v)) (p # ps)))"
    by (simp add: p)
  finally show ?case .
qed

lemma serialize_key: "fst (serialize K s) = key s"
  by (simp add: serialize_def Let_def)

lemma serialize_meta:
  "\<exists>m. serialize K s = (key s, JObj [(''string'', JStr (string s)), (''meta'', JObj m)])
       \<and> distinct (map fst m) \<and> map_of m = spec_meta K s"
proof -
  let ?ps = "map (\<lambda>(k, v). (dict_get (MAPPING K) k k, v)) (meta s)"
  have ren: "?ps = map (\<lambda>(k, v). (renamed_key K k, v)) (meta s)"
    by (simp add: MAPPING_get)
  have m: "map_of (dict_of_pairs ?ps) =
        foldl (\<lambda>m (k, v). m(renamed_key K k \<mapsto> v)) Map.empty (meta s)"
    by (simp add: map_of_dict_of_pairs ren foldl_map_upd)
  show ?thesis
  proof (cases "py_truthy (context' s)")
    case True
    then show ?thesis
      using m distinct_dict_setitem [OF distinct_dict_of_pairs, of ?ps "''context''" "context' s"]
      by (simp add: serialize_def Let_def spec_meta_def map_of_dict_setitem)
  next
    case False
    then show ?thesis
      using m distinct_dict_of_pairs [of ?ps]
      by (simp add: serialize_def Let_def spec_meta_def)
  qed
qed

lemma push_requested:
  assumes "secret self = Some sec" and "sec \<noteq> []"
  shows "requested (snd (push_source_strings K self net strings purge w)) =
           requested w @ [push_request K self sec strings purge]"
  using assms
  by (auto simp: push_source_strings_def push_try_def split: net_result.splits option.splits)

lemma serialize_second:
  "serialize test_consts second_string =
     (''k1'', JObj [(''string'', JStr ''second''),
                    (''meta'', JObj [(''tags'', JArr [JStr ''t'']), (''x'', JNum 1),
                                     (''context'', JArr [JStr ''ctx''])])])"
  by (simp add: serialize_def MAPPING_def dict_of_pairs_def dict_get_def test_consts_def
      second_string_def)

lemma test_string_keys:
  "key first_string = ''k1''" "key second_string = ''k1''"
  by (simp_all add: first_string_def second_string_def)

text \<open>
  C9. With a secret, the one request of \<open>push_source_strings\<close> is a POST to
  \<open>host/content/\<close> with the authorization \<open>Bearer token:secret\<close> and the body
  \<open>{"data": mapping, "meta": {"purge": flag}}\<close>, where the mapping is assembled from the
  serialized source strings and has one entry for each key among them. Each source
  string is serialized to its key and \<open>{"string": value, "meta": m}\<close>, where \<open>m\<close> is
  the \<open>meta\<close> mapping of the specification: renamed keys, and the context only when it
  is non-empty. For the empty list and the flag \<open>False\<close> the body is
  \<open>{"data": {}, "meta": {"purge": False}}\<close>.
\<close>

theorem push_source_strings_request:
  assumes "secret self = Some sec" and "sec \<noteq> []"
  shows "requested (snd (push_source_strings K self net strings purge w)) =
           requested w @
           [\<lparr>req_method = POST, req_url = host self @ ''/content/'',
             req_authorization = ''Bearer '' @ token self @ '':'' @ sec,
             req_json = Some (JObj
               [(''data'', JObj (dict_of_pairs (map (serialize K) strings))),
                (''meta'', JObj [(''purge'', JBool purge)])])\<rparr>]
         \<and> distinct (map fst (dict_of_pairs (map (serialize K) strings)))
         \<and> fst ` set (dict_of_pairs (map (serialize K) strings)) = key ` set strings
         \<and> (\<forall>s. \<exists>m. serialize K s =
                   (key s, JObj [(''string'', JStr (string s)), (''meta'', JObj m)])
                 \<and> distinct (map fst m) \<and> map_of m = spec_meta K s)
         \<and> requested (snd (push_source_strings K self net [] False w)) =
           requested w @
           [\<lparr>req_method = POST, req_url = host self @ ''/content/'',
             req_authorization = ''Bearer '' @ token self @ '':'' @ sec,
             req_json = Some (JObj
               [(''data'', JObj []), (''meta'', JObj [(''purge'', JBool False)])])\<rparr>]"
proof -
  have keys: "fst ` set (dict_of_pairs (map (serialize K) strings)) = key ` set strings"
    by (simp add: keys_dict_of_pairs image_image serialize_key)
  have empty: "dict_of_pairs (map (serialize K) []) = []"
    by (simp add: dict_of_pairs_def)
  show ?thesis
    using serialize_meta [of K] keys distinct_dict_of_pairs [of "map (serialize K) strings"]
      push_requested [OF assms, of K net strings purge w]
      push_requested [OF assms, of K net "[]" False w]
    by (simp add: push_request_def PUSH_SOURCE_STRINGS_def dict_of_pairs_def)
qed

text \<open>A push of one source string with tags and a context, and the push of the empty list.\<close>

theorem push_source_strings_request_witness:
  "secret test_pusher = Some ''some_secret'' \<and> ''some_secret'' \<noteq> []
   \<and> requested (snd (push_source_strings test_consts test_pusher net_ok [second_string] True start)) =
       [\<lparr>req_method = POST, req_url = ''https://some.host/content/'',
         req_authorization = ''Bearer some_token:some_secret'',
         req_json = Some (JObj
           [(''data'', JObj
              [(''k1'', JObj [(''string'', JStr ''second''),
                 (''meta'', JObj [(''tags'', JArr [JStr ''t'']), (''x'', JNum 1),
                                  (''context'', JArr [JStr ''ctx''])])])]),
            (''meta'', JObj [(''purge'', JBool True)])])\<rparr>]
   \<and> requested (snd (push_source_strings test_consts test_pusher net_ok [] False start)) =
       [\<lparr>req_method = POST, req_url = ''https://some.host/content/'',
         req_authorization = ''Bearer some_token:some_secret'',
         req_json = Some (JObj
           [(''data'', JObj []), (''meta'', JObj [(''purge'', JBool False)])])\<rparr>]"
proof -
  have 1: "secret test_pusher = Some ''some_secret''"
    by (simp add: test_pusher_simps)
  have 2: "''some_secret'' \<noteq> []"
    by simp
  show ?thesis
    using push_source_strings_request
      [where self = test_pusher and K = test_consts and net = net_ok
         and strings = "[second_string]" and purge = True and w = start, OF 1 2] 1
    by (simp add: start_def test_pusher_simps serialize_second dict_of_pairs_def)
qed

section \<open>Source strings with the same key\<close>

lemma one_entry:
  "distinct (map fst d) \<Longrightarrow> k \<in> fst ` set d \<Longrightarrow> length (filter (\<lambda>(k', v). k' = k) d) = 1"
proof (induction d)
  case Nil
  then show ?case by simp
next
  case (Cons p d)
  obtain k' v' where p: "p = (k', v')" by (cases p)
  show ?case
  proof (cases "k' = k")
    case True
    then have "filter (\<lambda>(k', v). k' = k) d = []"
      using Cons.prems(1) by (auto simp: p filter_empty_conv image_iff)
    then show ?thesis by (simp add: p True)
  next
    case False
    then show ?thesis
      using Cons by (auto simp: p)
  qed
qed

lemma map_of_rev_serialize:
  "s \<in> set strings \<Longrightarrow>
   map_of (rev (map (serialize K) strings)) (key s) =
     Some (snd (serialize K (last (filter (\<lambda>t. key t = key s) strings))))"
proof (induction strings rule: rev_induct)
  case Nil
  then show ?case by simp
next
  case (snoc x xs)
  obtain k v where x: "serialize K x = (k, v)" by (cases "serialize K x")
  have k: "k = key x"
    using serialize_key [of K x] by (simp add: x)
  show ?case
  proof (cases "key x = key s")
    case True
    then show ?thesis by (simp add: x k)
  next
    case False
    then have "s \<in> set xs" using snoc.prems by auto
    then show ?thesis
      using snoc.IH False by (simp add: x k)
  qed
qed

lemma serialize_first:
  "serialize test_consts first_string =
     (''k1'', JObj [(''string'', JStr ''first''),
                    (''meta'', JObj [(''developer_comment'', JStr ''note'')])])"
  by (simp add: serialize_def MAPPING_def dict_of_pairs_def dict_get_def test_consts_def
      first_string_def)

text \<open>
  C10. With a secret, for every source string \<open>s\<close> of the list, the \<open>data\<close> mapping in
  the body of the request that \<open>push_source_strings\<close> posts has exactly one entry with
  the key of \<open>s\<close>, and it holds the serialized record of the last source string of the
  list that has this key; the earlier ones are not sent.
\<close>

theorem push_duplicate_keys:
  assumes "secret self = Some sec" and "sec \<noteq> []" and "s \<in> set strings"
  shows "\<exists>data.
           requested (snd (push_source_strings K self net strings purge w)) =
             requested w @
             [\<lparr>req_method = POST, req_url = host self @ ''/content/'',
               req_authorization = ''Bearer '' @ token self @ '':'' @ sec,
               req_json = Some (JObj
                 [(''data'', JObj data), (''meta'', JObj [(''purge'', JBool purge)])])\<rparr>]
           \<and> length (filter (\<lambda>(k, v). k = key s) data) = 1
           \<and> map_of data (key s) =
               Some (snd (serialize K (last (filter (\<lambda>t. key t = key s) strings))))"
proof -
  let ?data = "dict_of_pairs (map (serialize K) strings)"
  have sent: "requested (snd (push_source_strings K self net strings purge w)) =
             requested w @
             [\<lparr>req_method = POST, req_url = host self @ ''/content/'',
               req_authorization = ''Bearer '' @ token self @ '':'' @ sec,
               req_json = Some (JObj
                 [(''data'', JObj ?data), (''meta'', JObj [(''purge'', JBool purge)])])\<rparr>]"
    using push_requested [OF assms(1) assms(2), of K net strings purge w]
    by (simp add: push_request_def PUSH_SOURCE_STRINGS_def)
  have "key s \<in> fst ` set ?data"
    using assms(3) by (simp add: keys_dict_of_pairs image_image serialize_key)
  then have one: "length (filter (\<lambda>(k, v). k = key s) ?data) = 1"
    by (rule one_entry [OF distinct_dict_of_pairs])
  have kept: "map_of ?data (key s) =
      Some (snd (serialize K (last (filter (\<lambda>t. key t = key s) strings))))"
    using map_of_rev_serialize [OF assms(3), of K] by (simp add: map_of_dict_of_pairs)
  from sent one kept show ?thesis
    by blast
qed

text \<open>
  Two source strings with the key \<open>k1\<close> are pushed: the body posted has the one entry
  \<open>k1\<close>, with the record of the second string.
\<close>

theorem push_duplicate_keys_witness:
  "secret test_pusher = Some ''some_secret'' \<and> ''some_secret'' \<noteq> []
   \<and> first_string \<in> set [first_string, second_string]
   \<and> key first_string = key second_string
   \<and> requested (snd (push_source_strings test_consts test_pusher net_ok
         [first_string, second_string] False start)) =
       [\<lparr>req_method = POST, req_url = ''https://some.host/content/'',
         req_authorization = ''Bearer some_token:some_secret'',
         req_json = Some (JObj
           [(''data'', JObj
              [(''k1'', JObj [(''string'', JStr ''second''),
                 (''meta'', JObj [(''tags'', JArr [JStr ''t'']), (''x'', JNum 1),
                                  (''context'', JArr [JStr ''ctx''])])])]),
            (''meta'', JObj [(''purge'', JBool False)])])\<rparr>]"
proof -
  have 1: "secret test_pusher = Some ''some_secret''"
    by (simp add: test_pusher_simps)
  have 2: "''some_secret'' \<noteq> []"
    by simp
  have 3: "first_string \<in> set [first_string, second_string]"
    by simp
  from push_duplicate_keys
      [where self = test_pusher and K = test_consts and net = net_ok and s = first_string
         and strings = "[first_string, second_string]" and purge = False and w = start,
       OF 1 2 3]
  obtain data where
    sent: "requested (snd (push_source_strings test_consts test_pusher net_ok
         [first_string, second_string] False start)) =
       requested start @
       [\<lparr>req_method = POST, req_url = host test_pusher @ ''/content/'',
         req_authorization = ''Bearer '' @ token test_pusher @ '':'' @ ''some_secret'',
         req_json = Some (JObj
           [(''data'', JObj data), (''meta'', JObj [(''purge'', JBool False)])])\<rparr>]"
    and one: "length (filter (\<lambda>(k, v). k = key first_string) data) = 1"
    and kept: "map_of data (key first_string) =
      Some (snd (serialize test_consts
        (last (filter (\<lambda>t. key t = key first_string) [first_string, second_string]))))"
    by blast
  have direct: "requested (snd (push_source_strings test_consts test_pusher net_ok
         [first_string, second_string] False start)) =
       requested start @ [push_request test_consts test_pusher ''some_secret''
         [first_string, second_string] False]"
    by (rule push_requested [OF 1 2])
  have data: "data = [(''k1'', snd (serialize test_consts second_string))]"
    using sent direct
    by (simp add: push_request_def serialize_first serialize_second dict_of_pairs_def)
  show ?thesis
    using sent 1 by (simp add: data start_def test_pusher_simps test_string_keys serialize_second)
qed

end
